theory Spec2Isabelle
  imports Main
begin

section \<open>Values, objects and strings of the front end\<close>

text \<open>
  The two modules are TypeScript. A field value of a datapoint is a string, a number or an
  array of strings (the result type of \<^verbatim>\<open>InputConverterFn\<close>), or \<^verbatim>\<open>undefined\<close> when the
  object has no such property. A number is an IEEE double: not a number, an infinity, or a
  finite value \<open>m * 2 ^ e\<close> given by \<open>m\<close> and \<open>e\<close>. Nothing below computes with numbers.
\<close>

datatype jsnumber = NaN | PlusInfinity | MinusInfinity | Finite int int

datatype litvalue = Undefined | Str string | Num jsnumber | StrList "string list"

datatype error = TypeError

text \<open>
  An object (\<^verbatim>\<open>Input\<close>, \<^verbatim>\<open>Spec\<close>) and a \<^verbatim>\<open>Map\<close> are association lists in insertion order.
  Reading a property takes the entry of the key, assigning one replaces the entry where it
  stands or appends a new one, and \<^verbatim>\<open>Object.keys\<close> lists the keys. (JavaScript lists the
  keys of an object that look like array indices first; the properties below speak of the
  set of keys, not of their order.)
\<close>

type_synonym Input = "(string \<times> litvalue) list"

definition Object_keys :: "(string \<times> 'v) list \<Rightarrow> string list" where
  "Object_keys obj = map fst obj"

definition obj_get :: "Input \<Rightarrow> string \<Rightarrow> litvalue" where
  "obj_get obj key = (case map_of obj key of None \<Rightarrow> Undefined | Some v \<Rightarrow> v)"

fun obj_set :: "(string \<times> 'v) list \<Rightarrow> string \<Rightarrow> 'v \<Rightarrow> (string \<times> 'v) list" where
  "obj_set [] key v = [(key, v)]"
| "obj_set ((k, w) # ps) key v =
     (if k = key then (key, v) # ps else (k, w) # obj_set ps key v)"

text \<open>
  \<^verbatim>\<open>String.prototype.split(sep)\<close>: with an empty separator the string falls into its
  characters; otherwise the string is scanned from the left, a piece ends at the leftmost
  occurrence of the separator and the scan goes on behind it. The empty string gives one
  empty piece. \<^verbatim>\<open>Array.prototype.join(sep)\<close> puts the separator between the elements.
\<close>

fun split_from :: "string \<Rightarrow> string \<Rightarrow> string \<Rightarrow> string list" where
  "split_from sep acc [] = [acc]"
| "split_from sep acc (c # cs) =
     (if sep \<noteq> [] \<and> take (length sep) (c # cs) = sep
      then acc # split_from sep [] (drop (length sep) (c # cs))
      else split_from sep (acc @ [c]) cs)"

definition js_split :: "string \<Rightarrow> string \<Rightarrow> string list" where
  "js_split sep s = (if sep = [] then map (\<lambda>c. [c]) s else split_from sep [] s)"

fun js_join :: "string \<Rightarrow> string list \<Rightarrow> string" where
  "js_join sep [] = []"
| "js_join sep [x] = x"
| "js_join sep (x # y # ys) = x @ sep @ js_join sep (y # ys)"

text \<open>\<^verbatim>\<open>String.prototype.includes(sub)\<close>: the string has \<open>sub\<close> as a substring.\<close>

fun js_includes :: "string \<Rightarrow> string \<Rightarrow> bool" where
  "js_includes [] sub = (sub = [])"
| "js_includes (c # cs) sub = (take (length sub) (c # cs) = sub \<or> js_includes cs sub)"

section \<open>The datapoint editor (datapoint\_editor\_module.ts)\<close>

subsection \<open>State of the module and of its collaborators\<close>

record fieldSpec =
  spec_name :: string
  vocab :: "string list option"
  separator :: "string option"

type_synonym Spec = "(string \<times> fieldSpec) list"

record IndexedInput_meta =
  source :: "string option"
  added :: "bool option"
  parentId :: "string option"

record IndexedInput =
  data :: Input
  id' :: string
  meta :: IndexedInput_meta

record appState =
  currentDataset :: string
  currentDatasetSpec :: Spec
  currentInputDataKeys :: "string list"
  currentInputData :: "IndexedInput list"
  currentModelRequiredInputSpecKeys :: "string list"
  compareExamplesEnabled :: bool

record groupService =
  categoricalFeatureNames :: "string list"
  numericalFeatureNames :: "string list"

record selectionService =
  primarySelectedId :: "string option"
  primarySelectedInputData :: "IndexedInput option"

record editor =
  editedData :: Input
  datapointEdited :: bool

subsection \<open>resetEditedData\<close>

text \<open>
  The loop of \<^verbatim>\<open>resetEditedData\<close> assigns \<^verbatim>\<open>data[key]\<close> for each key in turn, starting from
  the empty object. \<^verbatim>\<open>defaultValueByField\<close> is imported from lib/types and is a parameter
  here.
\<close>

fun resetEditedData_loop :: "(string \<Rightarrow> litvalue) \<Rightarrow> string list \<Rightarrow> Input \<Rightarrow> Input" where
  "resetEditedData_loop f [] dat = dat"
| "resetEditedData_loop f (key # keys) dat =
     resetEditedData_loop f keys (obj_set dat key (f key))"

definition resetEditedData ::
  "(string \<Rightarrow> Spec \<Rightarrow> litvalue) \<Rightarrow> appState \<Rightarrow> Input option \<Rightarrow> editor \<Rightarrow> editor" where
  "resetEditedData defaultValueByField app selectedInputData ed =
     (let keys = (case selectedInputData of
                    None \<Rightarrow> currentInputDataKeys app
                  | Some r \<Rightarrow> Object_keys r);
          spec = currentDatasetSpec app;
          dat = resetEditedData_loop
                   (\<lambda>key. case selectedInputData of
                             None \<Rightarrow> defaultValueByField key spec
                           | Some r \<Rightarrow> obj_get r key)
                   keys []
      in ed\<lparr>datapointEdited := False, editedData := dat\<rparr>)"

subsection \<open>allRequiredInputsFilledOut and the buttons\<close>

fun allRequiredInputsFilledOut_loop :: "string list \<Rightarrow> Input \<Rightarrow> string list \<Rightarrow> bool" where
  "allRequiredInputsFilledOut_loop required ed [] = True"
| "allRequiredInputsFilledOut_loop required ed (key # keys) =
     (if key \<in> set required \<and> obj_get ed key = Str []
      then False
      else allRequiredInputsFilledOut_loop required ed keys)"

definition allRequiredInputsFilledOut :: "appState \<Rightarrow> editor \<Rightarrow> bool" where
  "allRequiredInputsFilledOut app ed =
     allRequiredInputsFilledOut_loop (currentModelRequiredInputSpecKeys app)
       (editedData ed) (Object_keys (editedData ed))"

definition makeEnabled :: "appState \<Rightarrow> editor \<Rightarrow> bool" where
  "makeEnabled app ed = (datapointEdited ed \<and> allRequiredInputsFilledOut app ed)"

definition compareEnabled :: "appState \<Rightarrow> editor \<Rightarrow> bool" where
  "compareEnabled app ed = (makeEnabled app ed \<and> \<not> compareExamplesEnabled app)"

definition resetEnabled :: "editor \<Rightarrow> bool" where
  "resetEnabled ed = datapointEdited ed"

definition clearEnabled :: "selectionService \<Rightarrow> bool" where
  "clearEnabled sel = (primarySelectedInputData sel \<noteq> None)"

subsection \<open>The Add and the Add-and-compare actions\<close>

text \<open>
  \<^verbatim>\<open>onClickNew\<close> and \<^verbatim>\<open>onClickCompare\<close> talk to collaborators that are not part of the module:
  the remote call \<^verbatim>\<open>indexDatapoints\<close>, \<^verbatim>\<open>commitNewDatapoints\<close> of the application state and
  \<^verbatim>\<open>selectIds\<close> of a selection service (the module's own one has the index
  \<^verbatim>\<open>selectionServiceIndex\<close>; the second service of the application has index 1). The model
  records the calls in the order the handler makes them. \<^verbatim>\<open>indexDatapoints\<close> is a parameter:
  it answers with the indexed datapoints, or fails (\<open>None\<close>: the awaited promise rejects and
  the handler stops there). The second component of the result says whether the handler
  ran to its end.
\<close>

datatype effect =
    IndexDatapoints "IndexedInput list"
  | CommitNewDatapoints "IndexedInput list"
  | SelectIds nat "string option list"
  | SetCompareExamplesEnabled bool

definition onClickNew_datum :: "selectionService \<Rightarrow> editor \<Rightarrow> IndexedInput" where
  "onClickNew_datum sel ed =
     \<lparr>data = editedData ed, id' = [],
      meta = \<lparr>source = Some ''manual'', added = Some True,
              parentId = primarySelectedId sel\<rparr>\<rparr>"

definition onClickNew ::
  "(IndexedInput list \<Rightarrow> IndexedInput list option) \<Rightarrow> nat \<Rightarrow> selectionService \<Rightarrow> editor
     \<Rightarrow> effect list \<times> bool" where
  "onClickNew indexDatapoints selectionServiceIndex sel ed =
     (let datum = onClickNew_datum sel ed
      in case indexDatapoints [datum] of
           None \<Rightarrow> ([IndexDatapoints [datum]], False)
         | Some ds \<Rightarrow>
             ([IndexDatapoints [datum], CommitNewDatapoints ds,
               SelectIds selectionServiceIndex (map (\<lambda>d. Some (id' d)) ds)], True))"

definition onClickCompare ::
  "(IndexedInput list \<Rightarrow> IndexedInput list option) \<Rightarrow> nat \<Rightarrow> selectionService \<Rightarrow> editor
     \<Rightarrow> effect list \<times> bool" where
  "onClickCompare indexDatapoints selectionServiceIndex sel ed =
     (let parent = primarySelectedId sel;
          (effects, finished) = onClickNew indexDatapoints selectionServiceIndex sel ed
      in if finished
         then (effects @ [SetCompareExamplesEnabled True, SelectIds 1 [parent]], True)
         else (effects, False))"

subsection \<open>The input of a field: renderEntry\<close>

text \<open>
  \<^verbatim>\<open>renderEntry\<close> assigns one of eight closures to \<^verbatim>\<open>renderInput\<close>; the closed-choice one
  carries the vocabulary and the multi-label one its separator. \<^verbatim>\<open>isLitSubtype\<close> is imported
  from lib/utils and is a parameter; it is given the field's specification, which is
  \<^verbatim>\<open>undefined\<close> (\<open>None\<close>) for a key outside the dataset's specification, and the type names
  asked for. Reading \<^verbatim>\<open>fieldSpec.separator\<close> of an undefined specification throws.
\<close>

datatype renderInput =
    renderFreeformInput
  | renderCategoricalInput "string list"
  | renderShortformInput
  | renderNumericInput
  | renderTokensInput
  | renderSpanLabelsNonEditable
  | renderEdgeLabelsNonEditable
  | renderSparseMultilabelInput string

definition separator_or_default :: "fieldSpec \<Rightarrow> string" where
  "separator_or_default fs = (case separator fs of None \<Rightarrow> '','' | Some s \<Rightarrow> s)"

definition renderEntry_renderInput ::
  "(fieldSpec option \<Rightarrow> string list \<Rightarrow> bool) \<Rightarrow> groupService \<Rightarrow> appState \<Rightarrow> string
     \<Rightarrow> error + renderInput" where
  "renderEntry_renderInput isLitSubtype gs app key =
     (let fs = map_of (currentDatasetSpec app) key;
          voc = (case fs of None \<Rightarrow> None | Some f \<Rightarrow> vocab f)
      in case voc of
           Some catVals \<Rightarrow> Inr (renderCategoricalInput catVals)
         | None \<Rightarrow>
             if key \<in> set (categoricalFeatureNames gs) then Inr renderShortformInput
             else if key \<in> set (numericalFeatureNames gs) then Inr renderNumericInput
             else if isLitSubtype fs [''Tokens'', ''SequenceTags''] then Inr renderTokensInput
             else if isLitSubtype fs [''SpanLabels''] then Inr renderSpanLabelsNonEditable
             else if isLitSubtype fs [''EdgeLabels''] then Inr renderEdgeLabelsNonEditable
             else if isLitSubtype fs [''SparseMultilabel'']
               then (case fs of
                       None \<Rightarrow> Inl TypeError
                     | Some f \<Rightarrow> Inr (renderSparseMultilabelInput (separator_or_default f)))
             else Inr renderFreeformInput)"

text \<open>
  The dispatch policy in the words of the specification: seven rules tried in order, the
  first that matches wins; rule 5 covers span labels and edge labels, each with its own
  read-only rendering.
\<close>

datatype strategy =
    ClosedChoiceSelector
  | SingleLineFreeText
  | SingleLineNumeric
  | TokenSequenceControl
  | ReadOnlySpanLabels
  | ReadOnlyEdgeLabels
  | SparseMultilabelControl
  | MultiLineFreeText

definition dispatch_policy ::
  "bool \<Rightarrow> bool \<Rightarrow> bool \<Rightarrow> bool \<Rightarrow> bool \<Rightarrow> bool \<Rightarrow> bool \<Rightarrow> strategy" where
  "dispatch_policy hasEnumeration isCategorical isNumeric isTokenSequence isSpanLabels
       isEdgeLabels isSparseMultilabel =
     (if hasEnumeration then ClosedChoiceSelector
      else if isCategorical then SingleLineFreeText
      else if isNumeric then SingleLineNumeric
      else if isTokenSequence then TokenSequenceControl
      else if isSpanLabels then ReadOnlySpanLabels
      else if isEdgeLabels then ReadOnlyEdgeLabels
      else if isSparseMultilabel then SparseMultilabelControl
      else MultiLineFreeText)"

fun strategy_of :: "renderInput \<Rightarrow> strategy" where
  "strategy_of (renderCategoricalInput catVals) = ClosedChoiceSelector"
| "strategy_of renderShortformInput = SingleLineFreeText"
| "strategy_of renderNumericInput = SingleLineNumeric"
| "strategy_of renderTokensInput = TokenSequenceControl"
| "strategy_of renderSpanLabelsNonEditable = ReadOnlySpanLabels"
| "strategy_of renderEdgeLabelsNonEditable = ReadOnlyEdgeLabels"
| "strategy_of (renderSparseMultilabelInput sep) = SparseMultilabelControl"
| "strategy_of renderFreeformInput = MultiLineFreeText"

subsection \<open>Token and multi-label inputs: display and parse\<close>

text \<open>
  Both inputs show \<^verbatim>\<open>value ? value.join(sep) : ''\<close> and parse the text typed with
  \<^verbatim>\<open>value ? value.split(sep) : []\<close>. The value shown is the field's array (an array is always
  truthy) or a missing value (\<open>None\<close>); the text parsed is truthy unless it is empty.
\<close>

definition sparseMultilabel_valueAsString :: "string \<Rightarrow> string list option \<Rightarrow> string" where
  "sparseMultilabel_valueAsString sep v =
     (case v of Some labels \<Rightarrow> js_join sep labels | None \<Rightarrow> [])"

definition sparseMultilabel_converterFn :: "string \<Rightarrow> string \<Rightarrow> string list" where
  "sparseMultilabel_converterFn sep v = (if v \<noteq> [] then js_split sep v else [])"

definition tokens_valueAsString :: "string list option \<Rightarrow> string" where
  "tokens_valueAsString v = (case v of Some tokens \<Rightarrow> js_join '' '' tokens | None \<Rightarrow> [])"

definition tokens_converterFn :: "string \<Rightarrow> string list" where
  "tokens_converterFn v = (if v \<noteq> [] then js_split '' '' v else [])"

section \<open>The settings dialog (global\_settings.ts)\<close>

datatype TabName = Models | Dataset | Layout

record settings =
  isOpen :: bool
  selectedDataset :: string
  selectedLayout :: string
  modelCheckboxValues :: "(string \<times> bool) list"
  selectedTab :: TabName
  pathForDatapoints :: string
  datapointsStatus :: string

text \<open>
  Modelled from the spec: the constant \<^verbatim>\<open>NONE_DS_DICT_KEY\<close> is imported from lib/types; the
  specification calls it the sentinel "none" value of the dataset selection.
\<close>

definition NONE_DS_DICT_KEY :: string where
  "NONE_DS_DICT_KEY = ''none''"

definition selectedModels :: "settings \<Rightarrow> string list" where
  "selectedModels s = map fst (filter (\<lambda>(modelName, isSelected). isSelected) (modelCheckboxValues s))"

definition loadDatapointButtonsDisabled :: "settings \<Rightarrow> bool" where
  "loadDatapointButtonsDisabled s = (pathForDatapoints s = [])"

text \<open>\<^verbatim>\<open>input.meta['added']\<close> is truthy when the flag is there and true.\<close>

definition newDatapoints :: "appState \<Rightarrow> IndexedInput list" where
  "newDatapoints app = filter (\<lambda>input. added (meta input) = Some True) (currentInputData app)"

definition saveDatapointButtonDisabled :: "appState \<Rightarrow> settings \<Rightarrow> bool" where
  "saveDatapointButtonDisabled app s =
     (pathForDatapoints s = [] \<or> length (newDatapoints app) = 0 \<or>
      currentDataset app \<noteq> selectedDataset s)"

text \<open>
  The arguments of the remote call \<^verbatim>\<open>saveDatapoints\<close> that the handler \<^verbatim>\<open>save\<close> of the dataset
  page makes: the datapoints, the dataset and the path.
\<close>

definition save_request :: "appState \<Rightarrow> settings \<Rightarrow> IndexedInput list \<times> string \<times> string" where
  "save_request app s = (newDatapoints app, currentDataset app, pathForDatapoints s)"

text \<open>
  \<^verbatim>\<open>isDatasetValidForModels\<close> belongs to the settings service and is a parameter. The bottom
  bar computes the two flags that \<^verbatim>\<open>renderButtons\<close> turns into the state of Submit.
\<close>

definition renderButtons_submitDisabled :: "bool \<Rightarrow> bool \<Rightarrow> bool" where
  "renderButtons_submitDisabled noModelsSelected datasetValid =
     (noModelsSelected \<or> \<not> datasetValid)"

definition renderBottomBar_submitDisabled ::
  "(string \<Rightarrow> string list \<Rightarrow> bool) \<Rightarrow> settings \<Rightarrow> bool" where
  "renderBottomBar_submitDisabled isDatasetValidForModels s =
     (let noModelsSelected = (length (selectedModels s) = 0);
          datasetValid = isDatasetValidForModels (selectedDataset s) (selectedModels s)
      in renderButtons_submitDisabled noModelsSelected datasetValid)"

text \<open>The change handler of a model's checkbox, and the one of a dataset's radio button.\<close>

definition change :: "(string \<Rightarrow> string list \<Rightarrow> bool) \<Rightarrow> string \<Rightarrow> bool \<Rightarrow> settings \<Rightarrow> settings" where
  "change isDatasetValidForModels modelName checked s =
     (let s1 = s\<lparr>modelCheckboxValues := obj_set (modelCheckboxValues s) modelName checked\<rparr>
      in if \<not> isDatasetValidForModels (selectedDataset s1) (selectedModels s1)
         then s1\<lparr>selectedDataset := NONE_DS_DICT_KEY\<rparr>
         else s1)"

definition handleDatasetChange :: "string \<Rightarrow> settings \<Rightarrow> settings" where
  "handleDatasetChange datasetName s =
     s\<lparr>pathForDatapoints := [], datapointsStatus := [], selectedDataset := datasetName\<rparr>"

section \<open>Properties\<close>

subsection \<open>Splitting a joined list\<close>

lemma split_from_skip:
  "c \<notin> set x \<Longrightarrow> split_from (c # r) acc (x @ s) = split_from (c # r) (acc @ x) s"
proof (induction x arbitrary: acc)
  case Nil
  then show ?case by simp
next
  case (Cons y ys)
  then have "y \<noteq> c" and "c \<notin> set ys" by auto
  then show ?case using Cons.IH [of "acc @ [y]"] by simp
qed

lemma split_from_separator:
  "sep \<noteq> [] \<Longrightarrow> split_from sep acc (sep @ s) = acc # split_from sep [] s"
  by (cases sep) simp_all

lemma split_from_join:
  "c \<notin> set x \<Longrightarrow> (\<And>y. y \<in> set ys \<Longrightarrow> c \<notin> set y) \<Longrightarrow>
     split_from (c # r) acc (js_join (c # r) (x # ys)) = (acc @ x) # ys"
proof (induction ys arbitrary: x acc)
  case Nil
  from split_from_skip [OF Nil(1), of r acc "[]"] show ?case by simp
next
  case (Cons y ys)
  have "split_from (c # r) acc (x @ (c # r) @ js_join (c # r) (y # ys))
        = split_from (c # r) (acc @ x) ((c # r) @ js_join (c # r) (y # ys))"
    by (rule split_from_skip [OF Cons.prems(1)])
  also have "\<dots> = (acc @ x) # split_from (c # r) [] (js_join (c # r) (y # ys))"
    by (rule split_from_separator) simp
  also have "split_from (c # r) [] (js_join (c # r) (y # ys)) = ([] @ y) # ys"
    using Cons.prems(2) by (intro Cons.IH) auto
  finally show ?case by simp
qed

lemma js_join_empty_iff:
  "sep \<noteq> [] \<Longrightarrow> js_join sep xs = [] \<longleftrightarrow> xs = [] \<or> xs = [[]]"
  by (induction sep xs rule: js_join.induct) auto

lemma js_split_js_join:
  assumes "\<forall>x \<in> set xs. c \<notin> set x" and "xs \<noteq> []"
  shows "js_split (c # r) (js_join (c # r) xs) = xs"
proof (cases xs)
  case Nil
  with assms(2) show ?thesis by simp
next
  case (Cons x ys)
  have "split_from (c # r) [] (js_join (c # r) (x # ys)) = ([] @ x) # ys"
    using assms(1) Cons by (intro split_from_join) auto
  with Cons show ?thesis by (simp add: js_split_def)
qed

lemma take_append_short: "n \<le> length a \<Longrightarrow> take n (a @ b) = take n a"
  by simp

lemma take_eq_length:
  assumes "take (length sep) t = sep"
  shows "length sep \<le> length t"
proof -
  have "length (take (length sep) t) = length sep" using assms by simp
  then show ?thesis by simp
qed

lemma js_includes_Nil: "js_includes t []"
  by (cases t) simp_all

lemma js_includes_length: "js_includes t sep \<Longrightarrow> length sep \<le> length t"
proof (induction t)
  case Nil
  then show ?case by simp
next
  case (Cons c cs)
  show ?case
  proof (cases "take (length sep) (c # cs) = sep")
    case True
    then show ?thesis by (rule take_eq_length)
  next
    case False
    with Cons show ?thesis by simp
  qed
qed

lemma js_includes_append: "js_includes x sep \<Longrightarrow> js_includes (x @ t) sep"
proof (induction x)
  case Nil
  then show ?case by (simp add: js_includes_Nil)
next
  case (Cons c cs)
  show ?case
  proof (cases "take (length sep) (c # cs) = sep")
    case True
    then have "length sep \<le> length (c # cs)" by (rule take_eq_length)
    then have "take (length sep) ((c # cs) @ t) = take (length sep) (c # cs)"
      by (rule take_append_short)
    with True have "take (length sep) (c # (cs @ t)) = sep" by simp
    then show ?thesis by simp
  next
    case False
    with Cons show ?thesis by simp
  qed
qed

lemma take_label_separator:
  assumes "sep \<noteq> []"
  shows "take (length sep) ((y # ys) @ sep @ s) = take (length sep) ((y # ys) @ butlast sep)"
proof -
  have "sep @ s = (butlast sep @ [last sep]) @ s" using assms by simp
  then have "sep @ s = butlast sep @ (last sep # s)"
    by (simp only: append_assoc append_Cons append_Nil)
  then have "(y # ys) @ sep @ s = ((y # ys) @ butlast sep) @ (last sep # s)"
    by (simp only: append_assoc)
  moreover have "length sep \<le> length ((y # ys) @ butlast sep)" by simp
  then have "take (length sep) (((y # ys) @ butlast sep) @ (last sep # s))
      = take (length sep) ((y # ys) @ butlast sep)"
    by (rule take_append_short)
  ultimately show ?thesis by (simp only:)
qed

lemma split_from_label:
  assumes "sep \<noteq> []"
  shows "\<not> js_includes (x @ butlast sep) sep \<Longrightarrow>
     split_from sep acc (x @ sep @ s) = (acc @ x) # split_from sep [] s"
proof (induction x arbitrary: acc)
  case Nil
  show ?case using assms by (simp add: split_from_separator)
next
  case (Cons y ys)
  from Cons.prems have nomatch: "take (length sep) ((y # ys) @ butlast sep) \<noteq> sep"
    and rest: "\<not> js_includes (ys @ butlast sep) sep" by simp_all
  from nomatch have "take (length sep) ((y # ys) @ sep @ s) \<noteq> sep"
    by (simp only: take_label_separator [OF assms] simp_thms)
  then have "split_from sep acc ((y # ys) @ sep @ s) = split_from sep (acc @ [y]) (ys @ sep @ s)"
    by simp
  also have "\<dots> = ((acc @ [y]) @ ys) # split_from sep [] s"
    using rest by (rule Cons.IH)
  finally show ?case by simp
qed

lemma split_from_last:
  "\<not> js_includes x sep \<Longrightarrow> split_from sep acc x = [acc @ x]"
  by (induction x arbitrary: acc) simp_all

lemma split_from_label_not:
  assumes "sep \<noteq> []"
  shows "js_includes (x @ butlast sep) sep \<Longrightarrow>
     hd (split_from sep acc (x @ sep @ s)) \<noteq> acc @ x"
proof (induction x arbitrary: acc)
  case Nil
  then have "js_includes (butlast sep) sep" by simp
  then have "length sep \<le> length (butlast sep)" by (rule js_includes_length)
  moreover have "length (butlast sep) < length sep" using assms by (cases sep) simp_all
  ultimately have False by linarith
  then show ?case ..
next
  case (Cons y ys)
  show ?case
  proof (cases "take (length sep) ((y # ys) @ butlast sep) = sep")
    case True
    then have "take (length sep) ((y # ys) @ sep @ s) = sep"
      by (simp only: take_label_separator [OF assms] simp_thms)
    with assms have "split_from sep acc ((y # ys) @ sep @ s)
        = acc # split_from sep [] (drop (length sep) ((y # ys) @ sep @ s))"
      by simp
    then show ?thesis by simp
  next
    case False
    with Cons.prems have rest: "js_includes (ys @ butlast sep) sep" by simp
    from False have "take (length sep) ((y # ys) @ sep @ s) \<noteq> sep"
      by (simp only: take_label_separator [OF assms] simp_thms)
    then have "split_from sep acc ((y # ys) @ sep @ s)
        = split_from sep (acc @ [y]) (ys @ sep @ s)"
      by simp
    moreover have "hd (split_from sep (acc @ [y]) (ys @ sep @ s)) \<noteq> (acc @ [y]) @ ys"
      using rest by (rule Cons.IH)
    ultimately show ?thesis by simp
  qed
qed

lemma split_from_last_not:
  assumes "sep \<noteq> []"
  shows "js_includes x sep \<Longrightarrow> split_from sep acc x \<noteq> [acc @ x]"
proof (induction x arbitrary: acc)
  case Nil
  with assms show ?case by simp
next
  case (Cons y ys)
  show ?case
  proof (cases "take (length sep) (y # ys) = sep")
    case True
    with assms show ?thesis by simp
  next
    case False
    with Cons.prems have "js_includes ys sep" by simp
    then have "split_from sep (acc @ [y]) ys \<noteq> [(acc @ [y]) @ ys]" by (rule Cons.IH)
    with False show ?thesis by simp
  qed
qed

lemma split_from_join_iff:
  assumes "sep \<noteq> []"
  shows "split_from sep [] (js_join sep (x # ys)) = x # ys \<longleftrightarrow>
     (\<forall>z \<in> set (butlast (x # ys)). \<not> js_includes (z @ butlast sep) sep) \<and>
     \<not> js_includes (last (x # ys)) sep"
proof (induction ys arbitrary: x)
  case Nil
  show ?case
    using split_from_last [of x sep "[]"] split_from_last_not [OF assms, of x "[]"]
    by auto
next
  case (Cons y ys)
  show ?case
  proof (cases "js_includes (x @ butlast sep) sep")
    case True
    from split_from_label_not [OF assms True, of "[]" "js_join sep (y # ys)"]
    have "split_from sep [] (js_join sep (x # y # ys)) \<noteq> x # y # ys"
      by auto
    with True show ?thesis by simp
  next
    case False
    from split_from_label [OF assms False, of "[]" "js_join sep (y # ys)"]
    have "split_from sep [] (js_join sep (x # y # ys))
        = x # split_from sep [] (js_join sep (y # ys))"
      by simp
    with False Cons.IH [of y] show ?thesis by simp
  qed
qed

lemma converterFn_valueAsString_iff:
  assumes "sep \<noteq> []"
  shows "sparseMultilabel_converterFn sep (sparseMultilabel_valueAsString sep (Some labels))
           = labels \<longleftrightarrow>
     labels \<noteq> [[]] \<and>
     (\<forall>x \<in> set (butlast labels). \<not> js_includes (x @ butlast sep) sep) \<and>
     (labels \<noteq> [] \<longrightarrow> \<not> js_includes (last labels) sep)"
proof (cases labels)
  case Nil
  then show ?thesis
    by (simp add: sparseMultilabel_converterFn_def sparseMultilabel_valueAsString_def)
next
  case (Cons x ys)
  show ?thesis
  proof (cases "labels = [[]]")
    case True
    then show ?thesis
      by (simp add: sparseMultilabel_converterFn_def sparseMultilabel_valueAsString_def)
  next
    case False
    then have "js_join sep labels \<noteq> []"
      using Cons js_join_empty_iff [OF assms, of labels] by simp
    then have "sparseMultilabel_converterFn sep
          (sparseMultilabel_valueAsString sep (Some labels))
        = split_from sep [] (js_join sep (x # ys))"
      using assms Cons
      by (simp add: sparseMultilabel_converterFn_def sparseMultilabel_valueAsString_def
          js_split_def)
    with False Cons split_from_join_iff [OF assms, of x ys] show ?thesis
      by simp
  qed
qed

subsection \<open>Token sequences\<close>

text \<open>
  Claim C2, amended. For every list of tokens other than the list that holds just the
  empty token, if no token contains a space, then parsing the displayed string (the tokens
  joined by one space, split again at each space) gives the list back. The empty list is
  displayed as the empty string, and the empty string is parsed to the empty list.
\<close>

theorem tokens_round_trip:
  "((\<forall>t \<in> set T. CHR '' '' \<notin> set t) \<and> T \<noteq> [[]] \<longrightarrow>
      tokens_converterFn (tokens_valueAsString (Some T)) = T) \<and>
   tokens_valueAsString (Some []) = [] \<and>
   tokens_converterFn [] = []"
proof (intro conjI impI)
  assume h: "(\<forall>t \<in> set T. CHR '' '' \<notin> set t) \<and> T \<noteq> [[]]"
  show "tokens_converterFn (tokens_valueAsString (Some T)) = T"
  proof (cases "T = []")
    case True
    then show ?thesis by (simp add: tokens_converterFn_def tokens_valueAsString_def)
  next
    case False
    with h have "js_join '' '' T \<noteq> []"
      using js_join_empty_iff [of "'' ''" T] by simp
    moreover have "js_split '' '' (js_join '' '' T) = T"
      using h False js_split_js_join [of T "CHR '' ''" "[]"] by simp
    ultimately show ?thesis by (simp add: tokens_converterFn_def tokens_valueAsString_def)
  qed
next
  show "tokens_valueAsString (Some []) = []" by (simp add: tokens_valueAsString_def)
next
  show "tokens_converterFn [] = []" by (simp add: tokens_converterFn_def)
qed

text \<open>The round trip at the tokens "the" and "cat".\<close>

theorem tokens_round_trip_witness:
  "CHR '' '' \<notin> set ''the'' \<and> CHR '' '' \<notin> set ''cat'' \<and> [''the'', ''cat''] \<noteq> [[]] \<and>
   tokens_valueAsString (Some [''the'', ''cat'']) = ''the cat'' \<and>
   tokens_converterFn (tokens_valueAsString (Some [''the'', ''cat''])) = [''the'', ''cat'']"
  using tokens_round_trip [of "[''the'', ''cat'']"]
  by (simp add: tokens_valueAsString_def)

text \<open>
  Claim C2 as it is written fails at the list that holds one empty token: the token has no
  space, the list is displayed as the empty string, and the empty string is parsed to the
  empty list.
\<close>

theorem tokens_round_trip_counterexample:
  "CHR '' '' \<notin> set '''' \<and>
   tokens_valueAsString (Some ['''']) = '''' \<and>
   tokens_converterFn (tokens_valueAsString (Some [''''])) = [] \<and>
   tokens_converterFn (tokens_valueAsString (Some [''''])) \<noteq> ['''']"
  by (simp add: tokens_converterFn_def tokens_valueAsString_def)

subsection \<open>Sparse multi-labels\<close>

text \<open>
  Claim C3, amended. Let the configured separator be a non-empty string. Splitting the
  displayed string (the labels joined by the separator) at the separator gives the list of
  labels back exactly when the list is not the one that holds just the empty label, the
  separator does not occur in the last label, and the separator does not occur in any
  other label followed by the separator less its last character (no occurrence of the
  separator begins inside a label). So the round trip holds for every list, other than
  the one that holds just the empty label, in which the separator does not occur in a
  label followed by the separator less its last character; for a separator of one
  character, such as the default comma, this says that no label contains the separator.
  For every separator the empty list is displayed as the empty string and the empty
  string is parsed to the empty list. The separator is the one of the field's
  specification, and a comma when the specification has none: that is the separator
  \<^verbatim>\<open>renderEntry\<close> gives to the input of a field of the kind SparseMultilabel that no
  earlier rule of the dispatch takes.
\<close>

theorem sparseMultilabel_round_trip:
  "(sep \<noteq> [] \<longrightarrow>
      (sparseMultilabel_converterFn sep (sparseMultilabel_valueAsString sep (Some labels))
         = labels \<longleftrightarrow>
       labels \<noteq> [[]] \<and>
       (\<forall>x \<in> set (butlast labels). \<not> js_includes (x @ butlast sep) sep) \<and>
       (labels \<noteq> [] \<longrightarrow> \<not> js_includes (last labels) sep))) \<and>
   (sep \<noteq> [] \<and> labels \<noteq> [[]] \<and>
    (\<forall>x \<in> set labels. \<not> js_includes (x @ butlast sep) sep) \<longrightarrow>
      sparseMultilabel_converterFn sep (sparseMultilabel_valueAsString sep (Some labels))
        = labels) \<and>
   (labels \<noteq> [[]] \<and> (\<forall>x \<in> set labels. \<not> js_includes x [c]) \<longrightarrow>
      sparseMultilabel_converterFn [c] (sparseMultilabel_valueAsString [c] (Some labels))
        = labels) \<and>
   sparseMultilabel_valueAsString sep (Some []) = [] \<and>
   sparseMultilabel_converterFn sep [] = [] \<and>
   separator_or_default (f\<lparr>separator := None\<rparr>) = '','' \<and>
   separator_or_default (f\<lparr>separator := Some sep\<rparr>) = sep \<and>
   (map_of (currentDatasetSpec app) key = Some f \<and> vocab f = None \<and>
    key \<notin> set (categoricalFeatureNames gs) \<and> key \<notin> set (numericalFeatureNames gs) \<and>
    \<not> isLitSubtype (Some f) [''Tokens'', ''SequenceTags''] \<and>
    \<not> isLitSubtype (Some f) [''SpanLabels''] \<and>
    \<not> isLitSubtype (Some f) [''EdgeLabels''] \<and>
    isLitSubtype (Some f) [''SparseMultilabel''] \<longrightarrow>
      renderEntry_renderInput isLitSubtype gs app key
        = Inr (renderSparseMultilabelInput (separator_or_default f)))"
proof (intro conjI impI)
  assume "sep \<noteq> []"
  then show "sparseMultilabel_converterFn sep (sparseMultilabel_valueAsString sep (Some labels))
         = labels \<longleftrightarrow>
       labels \<noteq> [[]] \<and>
       (\<forall>x \<in> set (butlast labels). \<not> js_includes (x @ butlast sep) sep) \<and>
       (labels \<noteq> [] \<longrightarrow> \<not> js_includes (last labels) sep)"
    by (rule converterFn_valueAsString_iff)
next
  assume h: "sep \<noteq> [] \<and> labels \<noteq> [[]] \<and>
    (\<forall>x \<in> set labels. \<not> js_includes (x @ butlast sep) sep)"
  then have "\<forall>x \<in> set (butlast labels). \<not> js_includes (x @ butlast sep) sep"
    by (auto dest: in_set_butlastD)
  moreover have "\<not> js_includes (last labels) sep" if "labels \<noteq> []"
  proof
    assume "js_includes (last labels) sep"
    then have "js_includes (last labels @ butlast sep) sep" by (rule js_includes_append)
    moreover have "last labels \<in> set labels" using that by simp
    ultimately show False using h by blast
  qed
  ultimately show "sparseMultilabel_converterFn sep
      (sparseMultilabel_valueAsString sep (Some labels)) = labels"
    using h converterFn_valueAsString_iff [of sep labels] by blast
next
  assume h: "labels \<noteq> [[]] \<and> (\<forall>x \<in> set labels. \<not> js_includes x [c])"
  then have "\<forall>x \<in> set (butlast labels). \<not> js_includes (x @ butlast [c]) [c]"
    by (auto dest: in_set_butlastD)
  moreover have "labels \<noteq> [] \<longrightarrow> \<not> js_includes (last labels) [c]"
    using h by simp
  ultimately show "sparseMultilabel_converterFn [c]
      (sparseMultilabel_valueAsString [c] (Some labels)) = labels"
    using h converterFn_valueAsString_iff [of "[c]" labels] by blast
next
  show "sparseMultilabel_valueAsString sep (Some []) = []"
    by (simp add: sparseMultilabel_valueAsString_def)
next
  show "sparseMultilabel_converterFn sep [] = []"
    by (simp add: sparseMultilabel_converterFn_def)
next
  show "separator_or_default (f\<lparr>separator := None\<rparr>) = '',''"
    by (simp add: separator_or_default_def)
next
  show "separator_or_default (f\<lparr>separator := Some sep\<rparr>) = sep"
    by (simp add: separator_or_default_def)
next
  assume "map_of (currentDatasetSpec app) key = Some f \<and> vocab f = None \<and>
    key \<notin> set (categoricalFeatureNames gs) \<and> key \<notin> set (numericalFeatureNames gs) \<and>
    \<not> isLitSubtype (Some f) [''Tokens'', ''SequenceTags''] \<and>
    \<not> isLitSubtype (Some f) [''SpanLabels''] \<and>
    \<not> isLitSubtype (Some f) [''EdgeLabels''] \<and>
    isLitSubtype (Some f) [''SparseMultilabel'']"
  then show "renderEntry_renderInput isLitSubtype gs app key
        = Inr (renderSparseMultilabelInput (separator_or_default f))"
    by (simp add: renderEntry_renderInput_def)
qed

text \<open>
  Round trips with the separator ", " and a label that has a comma, with the separator
  " | ", and with the default comma; the field "topics" of the kind SparseMultilabel,
  whose specification has no separator, gets the input with the comma.
\<close>

theorem sparseMultilabel_round_trip_witness:
  "'', '' \<noteq> [] \<and> [''a,b'', ''c''] \<noteq> [[]] \<and>
   \<not> js_includes (''a,b'' @ butlast '', '') '', '' \<and> \<not> js_includes ''c'' '', '' \<and>
   sparseMultilabel_valueAsString '', '' (Some [''a,b'', ''c'']) = ''a,b, c'' \<and>
   sparseMultilabel_converterFn '', ''
     (sparseMultilabel_valueAsString '', '' (Some [''a,b'', ''c''])) = [''a,b'', ''c''] \<and>
   \<not> js_includes (''New York'' @ butlast '' | '') '' | '' \<and>
   \<not> js_includes (''Los Angeles'' @ butlast '' | '') '' | '' \<and>
   sparseMultilabel_converterFn '' | ''
     (sparseMultilabel_valueAsString '' | '' (Some [''New York'', ''Los Angeles'']))
     = [''New York'', ''Los Angeles''] \<and>
   \<not> js_includes ''a b'' '','' \<and> \<not> js_includes ''c'' '','' \<and>
   sparseMultilabel_converterFn '',''
     (sparseMultilabel_valueAsString '','' (Some [''a b'', ''c''])) = [''a b'', ''c''] \<and>
   renderEntry_renderInput
     (\<lambda>fs names. case fs of None \<Rightarrow> False | Some f \<Rightarrow> spec_name f \<in> set names)
     \<lparr>categoricalFeatureNames = [], numericalFeatureNames = []\<rparr>
     \<lparr>currentDataset = ''tags'',
      currentDatasetSpec =
        [(''topics'', \<lparr>spec_name = ''SparseMultilabel'', vocab = None, separator = None\<rparr>)],
      currentInputDataKeys = [''topics''], currentInputData = [],
      currentModelRequiredInputSpecKeys = [], compareExamplesEnabled = False\<rparr>
     ''topics''
   = Inr (renderSparseMultilabelInput '','')"
  using
    sparseMultilabel_round_trip [of "'', ''" "[''a,b'', ''c'']"]
    sparseMultilabel_round_trip [of "'' | ''" "[''New York'', ''Los Angeles'']"]
    sparseMultilabel_round_trip [of "'',''" "[''a b'', ''c'']" "CHR '',''"
      "\<lparr>spec_name = ''SparseMultilabel'', vocab = None, separator = None\<rparr>"
      "\<lparr>currentDataset = ''tags'',
        currentDatasetSpec =
          [(''topics'', \<lparr>spec_name = ''SparseMultilabel'', vocab = None, separator = None\<rparr>)],
        currentInputDataKeys = [''topics''], currentInputData = [],
        currentModelRequiredInputSpecKeys = [], compareExamplesEnabled = False\<rparr>"
      "''topics''"
      "\<lparr>categoricalFeatureNames = [], numericalFeatureNames = []\<rparr>"
      "\<lambda>fs names. case fs of None \<Rightarrow> False | Some f \<Rightarrow> spec_name f \<in> set names"]
  by (simp add: sparseMultilabel_valueAsString_def separator_or_default_def)

text \<open>
  Claim C3 as it is written fails in two ways. With the separator "aa" the labels "a" and
  "b", neither of which contains the separator, are displayed as "aaab" and parsed to the
  empty label and "ab". With the default comma the list that holds one empty label is
  displayed as the empty string and parsed to the empty list.
\<close>

theorem sparseMultilabel_round_trip_counterexample:
  "\<not> js_includes ''a'' ''aa'' \<and> \<not> js_includes ''b'' ''aa'' \<and>
   sparseMultilabel_valueAsString ''aa'' (Some [''a'', ''b'']) = ''aaab'' \<and>
   sparseMultilabel_converterFn ''aa''
     (sparseMultilabel_valueAsString ''aa'' (Some [''a'', ''b''])) = ['''', ''ab''] \<and>
   sparseMultilabel_converterFn ''aa''
     (sparseMultilabel_valueAsString ''aa'' (Some [''a'', ''b''])) \<noteq> [''a'', ''b''] \<and>
   \<not> js_includes '''' '','' \<and>
   sparseMultilabel_converterFn '',''
     (sparseMultilabel_valueAsString '','' (Some [''''])) = [] \<and>
   sparseMultilabel_converterFn '',''
     (sparseMultilabel_valueAsString '','' (Some [''''])) \<noteq> ['''']"
  by (simp add: sparseMultilabel_converterFn_def sparseMultilabel_valueAsString_def js_split_def)

subsection \<open>Required inputs\<close>

lemma allRequiredInputsFilledOut_loop_iff:
  "allRequiredInputsFilledOut_loop required ed keys \<longleftrightarrow>
     \<not> (\<exists>key \<in> set keys. key \<in> set required \<and> obj_get ed key = Str [])"
  by (induction keys) auto

text \<open>
  Claim C4. \<^verbatim>\<open>allRequiredInputsFilledOut\<close> is false if and only if some field of the draft is
  among the required input keys of the current models and holds the empty string. It is
  true when there are no required input keys.
\<close>

theorem allRequiredInputsFilledOut_iff:
  "(\<not> allRequiredInputsFilledOut app ed \<longleftrightarrow>
      (\<exists>key \<in> set (Object_keys (editedData ed)).
         key \<in> set (currentModelRequiredInputSpecKeys app) \<and>
         obj_get (editedData ed) key = Str [])) \<and>
   allRequiredInputsFilledOut (app\<lparr>currentModelRequiredInputSpecKeys := []\<rparr>) ed"
  by (simp add: allRequiredInputsFilledOut_def allRequiredInputsFilledOut_loop_iff)

subsection \<open>Resetting the draft\<close>

lemma map_of_obj_set: "map_of (obj_set ps key v) = (map_of ps)(key \<mapsto> v)"
  by (induction ps key v rule: obj_set.induct) auto

lemma keys_obj_set: "fst ` set (obj_set ps key v) = insert key (fst ` set ps)"
  by (induction ps key v rule: obj_set.induct) auto

lemma map_of_resetEditedData_loop:
  "map_of (resetEditedData_loop f keys dat) k =
     (if k \<in> set keys then Some (f k) else map_of dat k)"
  by (induction keys arbitrary: dat) (auto simp: map_of_obj_set)

lemma keys_resetEditedData_loop:
  "fst ` set (resetEditedData_loop f keys dat) = fst ` set dat \<union> set keys"
  by (induction keys arbitrary: dat) (simp_all add: keys_obj_set)

lemma obj_get_reset_Some:
  "obj_get (resetEditedData_loop (obj_get r) (map fst r) []) key = obj_get r key"
proof (cases "key \<in> set (map fst r)")
  case True
  then show ?thesis by (simp add: obj_get_def map_of_resetEditedData_loop)
next
  case False
  then have "map_of r key = None" by (simp add: map_of_eq_None_iff)
  with False show ?thesis by (simp add: obj_get_def map_of_resetEditedData_loop)
qed

lemma resetEditedData_None:
  "editedData (resetEditedData dv app None ed) =
     resetEditedData_loop (\<lambda>key. dv key (currentDatasetSpec app)) (currentInputDataKeys app) []"
  by (simp add: resetEditedData_def)

lemma resetEditedData_Some:
  "editedData (resetEditedData dv app (Some r) ed) =
     resetEditedData_loop (obj_get r) (map fst r) []"
  by (simp add: resetEditedData_def Object_keys_def)

lemma resetEditedData_flag: "datapointEdited (resetEditedData dv app sel ed) = False"
  by (simp add: resetEditedData_def)

text \<open>
  Claim C5, amended. \<^verbatim>\<open>resetEditedData\<close> clears the modified flag. After
  \<^verbatim>\<open>resetEditedData(null)\<close> the keys of the draft are the application state's
  \<^verbatim>\<open>currentInputDataKeys\<close>, and each of these fields holds the default value that
  \<^verbatim>\<open>defaultValueByField\<close> gives for it under the current specification. After
  \<^verbatim>\<open>resetEditedData(record)\<close> the keys of the draft are the keys of the record, and every
  field of the draft holds the record's value. The key set of the draft then equals the
  key set of the current field specification exactly when the key set of the record does.
\<close>

theorem resetEditedData_draft:
  "datapointEdited (resetEditedData dv app sel ed) = False \<and>
   set (Object_keys (editedData (resetEditedData dv app None ed)))
     = set (currentInputDataKeys app) \<and>
   (\<forall>key \<in> set (currentInputDataKeys app).
      obj_get (editedData (resetEditedData dv app None ed)) key
        = dv key (currentDatasetSpec app)) \<and>
   set (Object_keys (editedData (resetEditedData dv app (Some r) ed))) = set (Object_keys r) \<and>
   (\<forall>key. obj_get (editedData (resetEditedData dv app (Some r) ed)) key = obj_get r key) \<and>
   (set (Object_keys (editedData (resetEditedData dv app (Some r) ed)))
      = set (Object_keys (currentDatasetSpec app))
    \<longleftrightarrow> set (Object_keys r) = set (Object_keys (currentDatasetSpec app)))"
proof (intro conjI)
  show "datapointEdited (resetEditedData dv app sel ed) = False"
    by (rule resetEditedData_flag)
  show "set (Object_keys (editedData (resetEditedData dv app None ed)))
          = set (currentInputDataKeys app)"
    by (simp add: resetEditedData_None Object_keys_def keys_resetEditedData_loop)
  show "\<forall>key \<in> set (currentInputDataKeys app).
      obj_get (editedData (resetEditedData dv app None ed)) key
        = dv key (currentDatasetSpec app)"
    by (simp add: resetEditedData_None obj_get_def map_of_resetEditedData_loop)
  show keys: "set (Object_keys (editedData (resetEditedData dv app (Some r) ed)))
          = set (Object_keys r)"
    by (simp add: resetEditedData_Some Object_keys_def keys_resetEditedData_loop)
  show "\<forall>key. obj_get (editedData (resetEditedData dv app (Some r) ed)) key = obj_get r key"
    by (simp only: resetEditedData_Some obj_get_reset_Some) simp
  show "set (Object_keys (editedData (resetEditedData dv app (Some r) ed)))
      = set (Object_keys (currentDatasetSpec app))
    \<longleftrightarrow> set (Object_keys r) = set (Object_keys (currentDatasetSpec app))"
    by (simp only: keys)
qed

text \<open>
  A dataset with the text field "sentence" and the label field "label": the reset without
  a record gives the defaults of the two fields, and the reset to a record gives the
  record's values.
\<close>

theorem resetEditedData_draft_witness:
  "editedData (resetEditedData (\<lambda>key spec. Str [])
     \<lparr>currentDataset = ''sst'',
      currentDatasetSpec =
        [(''sentence'', \<lparr>spec_name = ''TextSegment'', vocab = None, separator = None\<rparr>),
         (''label'', \<lparr>spec_name = ''CategoryLabel'', vocab = Some [''0'', ''1''],
                      separator = None\<rparr>)],
      currentInputDataKeys = [''sentence'', ''label''], currentInputData = [],
      currentModelRequiredInputSpecKeys = [''sentence''], compareExamplesEnabled = False\<rparr>
     None \<lparr>editedData = [(''sentence'', Str ''old'')], datapointEdited = True\<rparr>)
   = [(''sentence'', Str []), (''label'', Str [])] \<and>
   obj_get (editedData (resetEditedData (\<lambda>key spec. Str [])
     \<lparr>currentDataset = ''sst'',
      currentDatasetSpec =
        [(''sentence'', \<lparr>spec_name = ''TextSegment'', vocab = None, separator = None\<rparr>),
         (''label'', \<lparr>spec_name = ''CategoryLabel'', vocab = Some [''0'', ''1''],
                      separator = None\<rparr>)],
      currentInputDataKeys = [''sentence'', ''label''], currentInputData = [],
      currentModelRequiredInputSpecKeys = [''sentence''], compareExamplesEnabled = False\<rparr>
     (Some [(''sentence'', Str ''a film''), (''label'', Str ''1'')])
     \<lparr>editedData = [(''sentence'', Str ''old'')], datapointEdited = True\<rparr>)) ''label''
   = Str ''1''"
  using resetEditedData_draft [of "\<lambda>key spec. Str []"
     "\<lparr>currentDataset = ''sst'',
      currentDatasetSpec =
        [(''sentence'', \<lparr>spec_name = ''TextSegment'', vocab = None, separator = None\<rparr>),
         (''label'', \<lparr>spec_name = ''CategoryLabel'', vocab = Some [''0'', ''1''],
                      separator = None\<rparr>)],
      currentInputDataKeys = [''sentence'', ''label''], currentInputData = [],
      currentModelRequiredInputSpecKeys = [''sentence''], compareExamplesEnabled = False\<rparr>"
     None "\<lparr>editedData = [(''sentence'', Str ''old'')], datapointEdited = True\<rparr>"
     "[(''sentence'', Str ''a film''), (''label'', Str ''1'')]"]
  by (simp add: resetEditedData_def Object_keys_def obj_get_def)

text \<open>
  Claim C5 as it is written fails for a record whose keys are not those of the
  specification: the specification has the one field "sentence", the record has the
  further field "note", and the draft gets both.
\<close>

theorem resetEditedData_draft_counterexample:
  "Object_keys (editedData (resetEditedData (\<lambda>key spec. Str [])
     \<lparr>currentDataset = ''sst'',
      currentDatasetSpec =
        [(''sentence'', \<lparr>spec_name = ''TextSegment'', vocab = None, separator = None\<rparr>)],
      currentInputDataKeys = [''sentence''], currentInputData = [],
      currentModelRequiredInputSpecKeys = [], compareExamplesEnabled = False\<rparr>
     (Some [(''sentence'', Str ''a film''), (''note'', Str ''x'')])
     \<lparr>editedData = [], datapointEdited = False\<rparr>))
   = [''sentence'', ''note''] \<and>
   Object_keys (currentDatasetSpec
     \<lparr>currentDataset = ''sst'',
      currentDatasetSpec =
        [(''sentence'', \<lparr>spec_name = ''TextSegment'', vocab = None, separator = None\<rparr>)],
      currentInputDataKeys = [''sentence''], currentInputData = [],
      currentModelRequiredInputSpecKeys = [], compareExamplesEnabled = False\<rparr>)
   = [''sentence''] \<and>
   set (Object_keys (editedData (resetEditedData (\<lambda>key spec. Str [])
     \<lparr>currentDataset = ''sst'',
      currentDatasetSpec =
        [(''sentence'', \<lparr>spec_name = ''TextSegment'', vocab = None, separator = None\<rparr>)],
      currentInputDataKeys = [''sentence''], currentInputData = [],
      currentModelRequiredInputSpecKeys = [], compareExamplesEnabled = False\<rparr>
     (Some [(''sentence'', Str ''a film''), (''note'', Str ''x'')])
     \<lparr>editedData = [], datapointEdited = False\<rparr>)))
   \<noteq> set (Object_keys (currentDatasetSpec
     \<lparr>currentDataset = ''sst'',
      currentDatasetSpec =
        [(''sentence'', \<lparr>spec_name = ''TextSegment'', vocab = None, separator = None\<rparr>)],
      currentInputDataKeys = [''sentence''], currentInputData = [],
      currentModelRequiredInputSpecKeys = [], compareExamplesEnabled = False\<rparr>))"
  by (simp add: resetEditedData_def Object_keys_def obj_get_def)

subsection \<open>The Add and the Add-and-compare actions\<close>

text \<open>
  Claim C8, amended. The Add action packages the current draft as a new record whose
  \<^verbatim>\<open>meta.parentId\<close> is the primary-selected id of the module's selection service, whose
  source tag is "manual" and whose added flag is set. When the remote indexing answers,
  the action commits the indexed records and selects their ids; this is so whether or not
  a record is selected, and without a selection the parent reference is null. The Add
  button is enabled exactly when the draft is modified and all required inputs are filled.
\<close>

theorem onClickNew_commit:
  "data (onClickNew_datum sel ed) = editedData ed \<and>
   parentId (meta (onClickNew_datum sel ed)) = primarySelectedId sel \<and>
   source (meta (onClickNew_datum sel ed)) = Some ''manual'' \<and>
   added (meta (onClickNew_datum sel ed)) = Some True \<and>
   (indexDatapoints [onClickNew_datum sel ed] = Some ds \<longrightarrow>
      onClickNew indexDatapoints i sel ed =
        ([IndexDatapoints [onClickNew_datum sel ed], CommitNewDatapoints ds,
          SelectIds i (map (\<lambda>d. Some (id' d)) ds)], True)) \<and>
   (makeEnabled app ed \<longleftrightarrow> datapointEdited ed \<and> allRequiredInputsFilledOut app ed)"
  by (simp add: onClickNew_def onClickNew_datum_def makeEnabled_def)

text \<open>
  The record "p1" is selected and the draft holds an edited sentence; the remote indexing
  gives the new record the id "n1".
\<close>

theorem onClickNew_commit_witness:
  "onClickNew
     (\<lambda>ds. Some (map (\<lambda>d. d\<lparr>id' := ''n1''\<rparr>) ds)) 0
     \<lparr>primarySelectedId = Some ''p1'', primarySelectedInputData = None\<rparr>
     \<lparr>editedData = [(''sentence'', Str ''a film'')], datapointEdited = True\<rparr>
   = ([IndexDatapoints
         [\<lparr>data = [(''sentence'', Str ''a film'')], id' = [],
           meta = \<lparr>source = Some ''manual'', added = Some True, parentId = Some ''p1''\<rparr>\<rparr>],
       CommitNewDatapoints
         [\<lparr>data = [(''sentence'', Str ''a film'')], id' = ''n1'',
           meta = \<lparr>source = Some ''manual'', added = Some True, parentId = Some ''p1''\<rparr>\<rparr>],
       SelectIds 0 [Some ''n1'']], True)"
  using onClickNew_commit [of
     "\<lparr>primarySelectedId = Some ''p1'', primarySelectedInputData = None\<rparr>"
     "\<lparr>editedData = [(''sentence'', Str ''a film'')], datapointEdited = True\<rparr>"
     "\<lambda>ds. Some (map (\<lambda>d. d\<lparr>id' := ''n1''\<rparr>) ds)"
     "[\<lparr>data = [(''sentence'', Str ''a film'')], id' = ''n1'',
           meta = \<lparr>source = Some ''manual'', added = Some True, parentId = Some ''p1''\<rparr>\<rparr>]"
     0]
  by (simp add: onClickNew_datum_def)

text \<open>
  Claim C8 as it is written fails when no record is selected: the Add button is enabled
  for a modified draft, and the action runs to its end and commits the draft as a new
  record with no parent.
\<close>

theorem onClickNew_counterexample:
  "primarySelectedId \<lparr>primarySelectedId = None, primarySelectedInputData = None\<rparr> = None \<and>
   makeEnabled
     \<lparr>currentDataset = ''sst'',
      currentDatasetSpec =
        [(''sentence'', \<lparr>spec_name = ''TextSegment'', vocab = None, separator = None\<rparr>)],
      currentInputDataKeys = [''sentence''], currentInputData = [],
      currentModelRequiredInputSpecKeys = [''sentence''], compareExamplesEnabled = False\<rparr>
     \<lparr>editedData = [(''sentence'', Str ''a film'')], datapointEdited = True\<rparr> \<and>
   onClickNew Some 0
     \<lparr>primarySelectedId = None, primarySelectedInputData = None\<rparr>
     \<lparr>editedData = [(''sentence'', Str ''a film'')], datapointEdited = True\<rparr>
   = ([IndexDatapoints
         [\<lparr>data = [(''sentence'', Str ''a film'')], id' = [],
           meta = \<lparr>source = Some ''manual'', added = Some True, parentId = None\<rparr>\<rparr>],
       CommitNewDatapoints
         [\<lparr>data = [(''sentence'', Str ''a film'')], id' = [],
           meta = \<lparr>source = Some ''manual'', added = Some True, parentId = None\<rparr>\<rparr>],
       SelectIds 0 [Some []]], True)"
  by (simp add: onClickNew_def onClickNew_datum_def makeEnabled_def
      allRequiredInputsFilledOut_def Object_keys_def obj_get_def Let_def)

text \<open>
  Claim C9. When the remote indexing answers, the Add-and-compare action makes the calls
  of the Add action (index the packaged draft, commit the indexed records, select their
  ids in the module's selection service), then turns the comparison of examples on and
  selects, in the second selection service, the id that was primary-selected before the
  commit.
\<close>

theorem onClickCompare_effects:
  assumes "indexDatapoints [onClickNew_datum sel ed] = Some ds"
  shows "onClickCompare indexDatapoints i sel ed =
           (fst (onClickNew indexDatapoints i sel ed) @
              [SetCompareExamplesEnabled True, SelectIds 1 [primarySelectedId sel]], True) \<and>
         onClickCompare indexDatapoints i sel ed =
           ([IndexDatapoints [onClickNew_datum sel ed], CommitNewDatapoints ds,
             SelectIds i (map (\<lambda>d. Some (id' d)) ds),
             SetCompareExamplesEnabled True, SelectIds 1 [primarySelectedId sel]], True)"
  using assms by (simp add: onClickNew_def onClickCompare_def)

text \<open>The same draft and selection as above, now added for comparison.\<close>

theorem onClickCompare_effects_witness:
  "onClickCompare
     (\<lambda>ds. Some (map (\<lambda>d. d\<lparr>id' := ''n1''\<rparr>) ds)) 0
     \<lparr>primarySelectedId = Some ''p1'', primarySelectedInputData = None\<rparr>
     \<lparr>editedData = [(''sentence'', Str ''a film'')], datapointEdited = True\<rparr>
   = ([IndexDatapoints
         [\<lparr>data = [(''sentence'', Str ''a film'')], id' = [],
           meta = \<lparr>source = Some ''manual'', added = Some True, parentId = Some ''p1''\<rparr>\<rparr>],
       CommitNewDatapoints
         [\<lparr>data = [(''sentence'', Str ''a film'')], id' = ''n1'',
           meta = \<lparr>source = Some ''manual'', added = Some True, parentId = Some ''p1''\<rparr>\<rparr>],
       SelectIds 0 [Some ''n1''],
       SetCompareExamplesEnabled True,
       SelectIds 1 [Some ''p1'']], True)"
  using onClickCompare_effects [of
     "\<lambda>ds. Some (map (\<lambda>d. d\<lparr>id' := ''n1''\<rparr>) ds)"
     "\<lparr>primarySelectedId = Some ''p1'', primarySelectedInputData = None\<rparr>"
     "\<lparr>editedData = [(''sentence'', Str ''a film'')], datapointEdited = True\<rparr>"
     "[\<lparr>data = [(''sentence'', Str ''a film'')], id' = ''n1'',
           meta = \<lparr>source = Some ''manual'', added = Some True, parentId = Some ''p1''\<rparr>\<rparr>]"
     0]
  by (simp add: onClickNew_datum_def onClickNew_def Let_def)

subsection \<open>The input strategy of a field\<close>

text \<open>
  Claim C1. For every field of the dataset's specification, \<^verbatim>\<open>renderEntry\<close> chooses its
  input by the ordered policy of the specification, the first rule that matches winning:
  a vocabulary, a categorical feature, a numerical feature, the kind Tokens or
  SequenceTags, the kind SpanLabels, the kind EdgeLabels, the kind SparseMultilabel, and
  free text otherwise. The strategy is a function of these seven attributes of the field,
  so fields that agree on them get the same strategy.
\<close>

theorem renderEntry_dispatch:
  assumes "map_of (currentDatasetSpec app) key = Some f"
  shows "\<exists>r. renderEntry_renderInput isLitSubtype gs app key = Inr r \<and>
     strategy_of r =
       dispatch_policy (vocab f \<noteq> None)
         (key \<in> set (categoricalFeatureNames gs))
         (key \<in> set (numericalFeatureNames gs))
         (isLitSubtype (Some f) [''Tokens'', ''SequenceTags''])
         (isLitSubtype (Some f) [''SpanLabels''])
         (isLitSubtype (Some f) [''EdgeLabels''])
         (isLitSubtype (Some f) [''SparseMultilabel''])"
  using assms
  by (cases "vocab f") (simp_all add: renderEntry_renderInput_def dispatch_policy_def)

text \<open>
  The field "label" has a vocabulary and is a categorical feature as well: the first rule
  wins and the input is the closed choice among the vocabulary.
\<close>

theorem renderEntry_dispatch_witness:
  "map_of
     [(''tokens'', \<lparr>spec_name = ''Tokens'', vocab = None, separator = None\<rparr>),
      (''label'', \<lparr>spec_name = ''CategoryLabel'', vocab = Some [''0'', ''1''],
                   separator = None\<rparr>)] ''label''
   = Some \<lparr>spec_name = ''CategoryLabel'', vocab = Some [''0'', ''1''], separator = None\<rparr> \<and>
   renderEntry_renderInput
     (\<lambda>fs names. case fs of None \<Rightarrow> False | Some f \<Rightarrow> spec_name f \<in> set names)
     \<lparr>categoricalFeatureNames = [''label''], numericalFeatureNames = []\<rparr>
     \<lparr>currentDataset = ''sst'',
      currentDatasetSpec =
        [(''tokens'', \<lparr>spec_name = ''Tokens'', vocab = None, separator = None\<rparr>),
         (''label'', \<lparr>spec_name = ''CategoryLabel'', vocab = Some [''0'', ''1''],
                      separator = None\<rparr>)],
      currentInputDataKeys = [''tokens'', ''label''], currentInputData = [],
      currentModelRequiredInputSpecKeys = [], compareExamplesEnabled = False\<rparr>
     ''label''
   = Inr (renderCategoricalInput [''0'', ''1'']) \<and>
   dispatch_policy True True False False False False False = ClosedChoiceSelector"
  using renderEntry_dispatch [of
     "\<lparr>currentDataset = ''sst'',
      currentDatasetSpec =
        [(''tokens'', \<lparr>spec_name = ''Tokens'', vocab = None, separator = None\<rparr>),
         (''label'', \<lparr>spec_name = ''CategoryLabel'', vocab = Some [''0'', ''1''],
                      separator = None\<rparr>)],
      currentInputDataKeys = [''tokens'', ''label''], currentInputData = [],
      currentModelRequiredInputSpecKeys = [], compareExamplesEnabled = False\<rparr>"
     "''label''"
     "\<lparr>spec_name = ''CategoryLabel'', vocab = Some [''0'', ''1''], separator = None\<rparr>"
     "\<lambda>fs names. case fs of None \<Rightarrow> False | Some f \<Rightarrow> spec_name f \<in> set names"
     "\<lparr>categoricalFeatureNames = [''label''], numericalFeatureNames = []\<rparr>"]
  by (simp add: renderEntry_renderInput_def dispatch_policy_def)

section \<open>Properties of the settings dialog\<close>

lemma distinct_obj_set: "distinct (map fst ps) \<Longrightarrow> distinct (map fst (obj_set ps key v))"
  by (induction ps key v rule: obj_set.induct) (auto simp: keys_obj_set)

lemma selected_set:
  "distinct (map fst bs) \<Longrightarrow>
     set (map fst (filter (\<lambda>(modelName, isSelected). isSelected) bs))
       = {m. map_of bs m = Some True}"
  by (force simp: image_iff)

lemma selected_obj_set:
  assumes "distinct (map fst bs)"
  shows "set (map fst (filter (\<lambda>(modelName, isSelected). isSelected) (obj_set bs m c)))
       = (set (map fst (filter (\<lambda>(modelName, isSelected). isSelected) bs)) - {m})
           \<union> (if c then {m} else {})"
proof -
  have "distinct (map fst (obj_set bs m c))" using assms by (rule distinct_obj_set)
  then have "set (map fst (filter (\<lambda>(modelName, isSelected). isSelected) (obj_set bs m c)))
      = {k. ((map_of bs)(m \<mapsto> c)) k = Some True}"
    by (simp only: selected_set map_of_obj_set)
  moreover have "set (map fst (filter (\<lambda>(modelName, isSelected). isSelected) bs))
      = {k. map_of bs k = Some True}"
    using assms by (rule selected_set)
  ultimately show ?thesis by (auto split: if_splits)
qed

text \<open>
  Claim C6. The Submit button of the dialog is disabled exactly when no model is selected
  or the settings service judges the selected dataset not valid for the selected models;
  it is enabled when some model is selected and the pair is valid.
\<close>

theorem submitDisabled_iff:
  "(renderBottomBar_submitDisabled isDatasetValidForModels s \<longleftrightarrow>
      selectedModels s = [] \<or>
      \<not> isDatasetValidForModels (selectedDataset s) (selectedModels s)) \<and>
   (\<not> renderBottomBar_submitDisabled isDatasetValidForModels s \<longleftrightarrow>
      selectedModels s \<noteq> [] \<and>
      isDatasetValidForModels (selectedDataset s) (selectedModels s))"
  by (simp add: renderBottomBar_submitDisabled_def renderButtons_submitDisabled_def)

text \<open>
  The three cases of the specification, for a service that accepts the dataset "sst"
  alone: no model selected, a model with another dataset, a model with "sst".
\<close>

theorem submitDisabled_iff_witness:
  "renderBottomBar_submitDisabled (\<lambda>d ms. d = ''sst'')
     \<lparr>isOpen = True, selectedDataset = ''sst'', selectedLayout = ''default'',
      modelCheckboxValues = [(''bert'', False)], selectedTab = Models,
      pathForDatapoints = [], datapointsStatus = []\<rparr> \<and>
   renderBottomBar_submitDisabled (\<lambda>d ms. d = ''sst'')
     \<lparr>isOpen = True, selectedDataset = ''mnli'', selectedLayout = ''default'',
      modelCheckboxValues = [(''bert'', True)], selectedTab = Models,
      pathForDatapoints = [], datapointsStatus = []\<rparr> \<and>
   \<not> renderBottomBar_submitDisabled (\<lambda>d ms. d = ''sst'')
     \<lparr>isOpen = True, selectedDataset = ''sst'', selectedLayout = ''default'',
      modelCheckboxValues = [(''bert'', True)], selectedTab = Models,
      pathForDatapoints = [], datapointsStatus = []\<rparr>"
  using
    submitDisabled_iff [of "\<lambda>d ms. d = ''sst''"
      "\<lparr>isOpen = True, selectedDataset = ''sst'', selectedLayout = ''default'',
        modelCheckboxValues = [(''bert'', False)], selectedTab = Models,
        pathForDatapoints = [], datapointsStatus = []\<rparr>"]
    submitDisabled_iff [of "\<lambda>d ms. d = ''sst''"
      "\<lparr>isOpen = True, selectedDataset = ''mnli'', selectedLayout = ''default'',
        modelCheckboxValues = [(''bert'', True)], selectedTab = Models,
        pathForDatapoints = [], datapointsStatus = []\<rparr>"]
    submitDisabled_iff [of "\<lambda>d ms. d = ''sst''"
      "\<lparr>isOpen = True, selectedDataset = ''sst'', selectedLayout = ''default'',
        modelCheckboxValues = [(''bert'', True)], selectedTab = Models,
        pathForDatapoints = [], datapointsStatus = []\<rparr>"]
  by (simp add: selectedModels_def)

text \<open>
  Claim C7. A change of a model's checkbox stores the new value of the checkbox; if the
  settings service then judges the selected dataset not valid for the new selected models,
  the dataset selection becomes the sentinel \<^verbatim>\<open>NONE_DS_DICT_KEY\<close>, and otherwise it stays
  as it was. When the checkboxes have distinct names, the new selected models are the old
  ones with the changed model put in or taken out. A change of the dataset selection sets
  the selected dataset and leaves the checkboxes and the selected models as they were.
\<close>

theorem change_dataset_selection:
  "selectedDataset (change isDatasetValidForModels m c s) =
     (if isDatasetValidForModels (selectedDataset s)
           (selectedModels (change isDatasetValidForModels m c s))
      then selectedDataset s else NONE_DS_DICT_KEY) \<and>
   modelCheckboxValues (change isDatasetValidForModels m c s)
     = obj_set (modelCheckboxValues s) m c \<and>
   (distinct (map fst (modelCheckboxValues s)) \<longrightarrow>
      set (selectedModels (change isDatasetValidForModels m c s))
        = (set (selectedModels s) - {m}) \<union> (if c then {m} else {})) \<and>
   modelCheckboxValues (handleDatasetChange d s) = modelCheckboxValues s \<and>
   selectedModels (handleDatasetChange d s) = selectedModels s \<and>
   selectedDataset (handleDatasetChange d s) = d"
proof (intro conjI impI)
  show "selectedDataset (change isDatasetValidForModels m c s) =
     (if isDatasetValidForModels (selectedDataset s)
           (selectedModels (change isDatasetValidForModels m c s))
      then selectedDataset s else NONE_DS_DICT_KEY)"
    by (simp add: change_def selectedModels_def Let_def)
  show boxes: "modelCheckboxValues (change isDatasetValidForModels m c s)
     = obj_set (modelCheckboxValues s) m c"
    by (simp add: change_def Let_def)
  show "set (selectedModels (change isDatasetValidForModels m c s))
        = (set (selectedModels s) - {m}) \<union> (if c then {m} else {})"
    if "distinct (map fst (modelCheckboxValues s))"
    unfolding selectedModels_def boxes using that by (rule selected_obj_set)
  show "modelCheckboxValues (handleDatasetChange d s) = modelCheckboxValues s"
    by (simp add: handleDatasetChange_def)
  show "selectedModels (handleDatasetChange d s) = selectedModels s"
    by (simp add: handleDatasetChange_def selectedModels_def)
  show "selectedDataset (handleDatasetChange d s) = d"
    by (simp add: handleDatasetChange_def)
qed

text \<open>
  The dataset "sst" is valid for the model "bert" alone. Ticking "gpt" as well makes it
  invalid and the selection becomes "none"; ticking "bert" again keeps it.
\<close>

theorem change_dataset_selection_witness:
  "distinct (map fst [(''bert'', True), (''gpt'', False)]) \<and>
   change (\<lambda>d ms. d = ''sst'' \<and> ms = [''bert'']) ''gpt'' True
     \<lparr>isOpen = True, selectedDataset = ''sst'', selectedLayout = ''default'',
      modelCheckboxValues = [(''bert'', True), (''gpt'', False)], selectedTab = Models,
      pathForDatapoints = [], datapointsStatus = []\<rparr>
   = \<lparr>isOpen = True, selectedDataset = ''none'', selectedLayout = ''default'',
      modelCheckboxValues = [(''bert'', True), (''gpt'', True)], selectedTab = Models,
      pathForDatapoints = [], datapointsStatus = []\<rparr> \<and>
   selectedDataset (change (\<lambda>d ms. d = ''sst'' \<and> ms = [''bert'']) ''bert'' True
     \<lparr>isOpen = True, selectedDataset = ''sst'', selectedLayout = ''default'',
      modelCheckboxValues = [(''bert'', True), (''gpt'', False)], selectedTab = Models,
      pathForDatapoints = [], datapointsStatus = []\<rparr>) = ''sst''"
  using change_dataset_selection [of "\<lambda>d ms. d = ''sst'' \<and> ms = [''bert'']" "''gpt''" True
     "\<lparr>isOpen = True, selectedDataset = ''sst'', selectedLayout = ''default'',
      modelCheckboxValues = [(''bert'', True), (''gpt'', False)], selectedTab = Models,
      pathForDatapoints = [], datapointsStatus = []\<rparr>" "''sst''"]
  by (simp add: change_def selectedModels_def NONE_DS_DICT_KEY_def)

text \<open>
  Claim C10. The button "Save new datapoints" is disabled exactly when the path is the
  empty string, or no current record is marked as added, or the dataset selected in the
  dialog is not the application's current dataset. The save is made for the current
  dataset, which is the selected one whenever the button is enabled.
\<close>

theorem saveDatapointButtonDisabled_iff:
  "(saveDatapointButtonDisabled app s \<longleftrightarrow>
      pathForDatapoints s = [] \<or>
      \<not> (\<exists>d \<in> set (currentInputData app). added (meta d) = Some True) \<or>
      currentDataset app \<noteq> selectedDataset s) \<and>
   set (newDatapoints app) = {d \<in> set (currentInputData app). added (meta d) = Some True} \<and>
   save_request app s = (newDatapoints app, currentDataset app, pathForDatapoints s) \<and>
   (\<not> saveDatapointButtonDisabled app s \<longrightarrow>
      fst (snd (save_request app s)) = selectedDataset s)"
  by (auto simp: saveDatapointButtonDisabled_def newDatapoints_def save_request_def
      filter_empty_conv)

text \<open>
  One added record, the path "/tmp/new" and the current dataset "sst": the button is
  enabled when "sst" is selected in the dialog and disabled when "mnli" is.
\<close>

theorem saveDatapointButtonDisabled_iff_witness:
  "\<not> saveDatapointButtonDisabled
     \<lparr>currentDataset = ''sst'', currentDatasetSpec = [], currentInputDataKeys = [],
      currentInputData =
        [\<lparr>data = [], id' = ''n1'',
          meta = \<lparr>source = Some ''manual'', added = Some True, parentId = None\<rparr>\<rparr>],
      currentModelRequiredInputSpecKeys = [], compareExamplesEnabled = False\<rparr>
     \<lparr>isOpen = True, selectedDataset = ''sst'', selectedLayout = ''default'',
      modelCheckboxValues = [(''bert'', True)], selectedTab = Dataset,
      pathForDatapoints = ''/tmp/new'', datapointsStatus = []\<rparr> \<and>
   fst (snd (save_request
     \<lparr>currentDataset = ''sst'', currentDatasetSpec = [], currentInputDataKeys = [],
      currentInputData =
        [\<lparr>data = [], id' = ''n1'',
          meta = \<lparr>source = Some ''manual'', added = Some True, parentId = None\<rparr>\<rparr>],
      currentModelRequiredInputSpecKeys = [], compareExamplesEnabled = False\<rparr>
     \<lparr>isOpen = True, selectedDataset = ''sst'', selectedLayout = ''default'',
      modelCheckboxValues = [(''bert'', True)], selectedTab = Dataset,
      pathForDatapoints = ''/tmp/new'', datapointsStatus = []\<rparr>)) = ''sst'' \<and>
   saveDatapointButtonDisabled
     \<lparr>currentDataset = ''sst'', currentDatasetSpec = [], currentInputDataKeys = [],
      currentInputData =
        [\<lparr>data = [], id' = ''n1'',
          meta = \<lparr>source = Some ''manual'', added = Some True, parentId = None\<rparr>\<rparr>],
      currentModelRequiredInputSpecKeys = [], compareExamplesEnabled = False\<rparr>
     \<lparr>isOpen = True, selectedDataset = ''mnli'', selectedLayout = ''default'',
      modelCheckboxValues = [(''bert'', True)], selectedTab = Dataset,
      pathForDatapoints = ''/tmp/new'', datapointsStatus = []\<rparr>"
  using saveDatapointButtonDisabled_iff [of
     "\<lparr>currentDataset = ''sst'', currentDatasetSpec = [], currentInputDataKeys = [],
      currentInputData =
        [\<lparr>data = [], id' = ''n1'',
          meta = \<lparr>source = Some ''manual'', added = Some True, parentId = None\<rparr>\<rparr>],
      currentModelRequiredInputSpecKeys = [], compareExamplesEnabled = False\<rparr>"
     "\<lparr>isOpen = True, selectedDataset = ''sst'', selectedLayout = ''default'',
      modelCheckboxValues = [(''bert'', True)], selectedTab = Dataset,
      pathForDatapoints = ''/tmp/new'', datapointsStatus = []\<rparr>"]
  by (simp add: saveDatapointButtonDisabled_def newDatapoints_def save_request_def)

end
